theory Spec2Isabelle
  imports Main
begin

section \<open>Data model\<close>

text \<open>
  A shallow embedding of \<^verbatim>\<open>dns.py\<close>, a command-line tool that keeps one DNS A record of a
  Cloudflare zone in step with a requested name, address and proxy flag.

  Python strings are modelled as \<^typ>\<open>string\<close>; a character stands for a code point
  below 256.  A \<^verbatim>\<open>datetime\<close> is used by the program only through
  \<^verbatim>\<open>isoformat()\<close>, so it is represented by that rendering.
\<close>

datatype datetime = Datetime (isoformat: string)

text \<open>
  The provider's \<^verbatim>\<open>Record\<close>.  The fields carry the prefix \<open>rec_\<close>: the bare names
  \<^verbatim>\<open>name\<close>, \<^verbatim>\<open>content\<close> and \<^verbatim>\<open>proxied\<close> are parameters of the
  mutators below.  \<^verbatim>\<open>proxied\<close> and the two timestamps may be \<^verbatim>\<open>None\<close>.
\<close>

record dns_record =
  rec_id :: string
  rec_type :: string
  rec_name :: string
  rec_content :: string
  rec_proxied :: "bool option"
  rec_ttl :: int
  rec_created_on :: "datetime option"
  rec_modified_on :: "datetime option"

text \<open>\<^verbatim>\<open>RecordDeleteResponse\<close>: the program reads its \<^verbatim>\<open>id\<close> only.\<close>

record delete_response =
  deleted_id :: string

text \<open>
  What one call of the provider's client does: it returns a value, raises
  \<^verbatim>\<open>APIError\<close>, or raises another \<^verbatim>\<open>Exception\<close>.  The string is \<^verbatim>\<open>str(e)\<close>.
\<close>

datatype 'a api_result = Ok 'a | APIError string | OtherException string

text \<open>
  The client \<^verbatim>\<open>cf\<close>: the four methods of \<^verbatim>\<open>cf.dns.records\<close> the program calls,
  each with its keyword arguments in the order of the call site.  A delete may answer
  with a falsy response (\<^verbatim>\<open>None\<close>).
\<close>

record cloudflare =
  records_list :: "string \<Rightarrow> dns_record list api_result"
  records_create :: "string \<Rightarrow> string \<Rightarrow> string \<Rightarrow> string \<Rightarrow> bool \<Rightarrow> dns_record api_result"
  records_update ::
    "string \<Rightarrow> string \<Rightarrow> string \<Rightarrow> string \<Rightarrow> string \<Rightarrow> bool \<Rightarrow> dns_record api_result"
  records_delete :: "string \<Rightarrow> string \<Rightarrow> delete_response option api_result"

section \<open>Effects\<close>

text \<open>
  Everything the program does besides computing is recorded, in order, as a list of
  events: a line printed to one of the two streams, the \<^verbatim>\<open>list\<close> payload handed to
  \<^verbatim>\<open>json.dumps(..., indent=2)\<close> and printed, or a call of the provider's API.
\<close>

datatype stream = Stdout | Stderr

datatype json =
    JNull
  | JBool bool
  | JInt int
  | JStr string
  | JArray "json list"
  | JObject "(string \<times> json) list"

datatype api_call =
    ListRecords string
  | CreateRecord string string string string bool
  | UpdateRecord string string string string string bool
  | DeleteRecord string string

datatype event =
    Print stream string
  | PrintJson stream json
  | Call api_call

text \<open>
  A function either returns to its caller or leaves the process through
  \<^verbatim>\<open>sys.exit(code)\<close>; in both cases it has emitted some events.
\<close>

datatype 'a result = Return 'a | Exit int

type_synonym 'a proc = "event list \<times> 'a result"

definition and_then :: "'a proc \<Rightarrow> ('a \<Rightarrow> 'b proc) \<Rightarrow> 'b proc" where
  "and_then p f =
     (case p of
        (es, Exit code) \<Rightarrow> (es, Exit code)
      | (es, Return x) \<Rightarrow> (case f x of (es', r) \<Rightarrow> (es @ es', r)))"

definition print_to :: "stream \<Rightarrow> string \<Rightarrow> unit proc" where
  "print_to s line = ([Print s line], Return ())"

definition sys_exit :: "int \<Rightarrow> 'a proc" where
  "sys_exit code = ([], Exit code)"

definition calls :: "event list \<Rightarrow> api_call list" where
  "calls es = concat (map (\<lambda>e. case e of Call c \<Rightarrow> [c] | _ \<Rightarrow> []) es)"

fun is_mutation :: "api_call \<Rightarrow> bool" where
  "is_mutation (ListRecords _) = False"
| "is_mutation _ = True"

definition printed_on :: "stream \<Rightarrow> event list \<Rightarrow> string list" where
  "printed_on s es =
     concat (map (\<lambda>e. case e of Print s' line \<Rightarrow> (if s' = s then [line] else []) | _ \<Rightarrow> []) es)"

section \<open>Python string helpers\<close>

text \<open>The apostrophe of the messages, and \<^verbatim>\<open>str\<close> of the values the f-strings print.\<close>

definition apostrophe :: string where
  "apostrophe = [CHR 0x27]"

definition str_bool :: "bool \<Rightarrow> string" where
  "str_bool b = (if b then ''True'' else ''False'')"

definition str_opt_bool :: "bool option \<Rightarrow> string" where
  "str_opt_bool b = (case b of None \<Rightarrow> ''None'' | Some v \<Rightarrow> str_bool v)"

text \<open>
  \<^verbatim>\<open>str.isspace\<close> on the code points below 256: tab to carriage return, the four
  separators 0x1C to 0x1F, the space, NEL and the no-break space.
\<close>

definition isspace :: "char \<Rightarrow> bool" where
  "isspace c =
     (let n = of_char c :: nat
      in (9 \<le> n \<and> n \<le> 13) \<or> (28 \<le> n \<and> n \<le> 32) \<or> n = 133 \<or> n = 160)"

definition strip :: "string \<Rightarrow> string" where
  "strip s = rev (dropWhile isspace (rev (dropWhile isspace s)))"

text \<open>\<^verbatim>\<open>sub in s\<close> for strings: \<open>sub\<close> occurs in \<open>s\<close> as a contiguous run.\<close>

fun starts_with :: "string \<Rightarrow> string \<Rightarrow> bool" where
  "starts_with s [] = True"
| "starts_with [] (p # ps) = False"
| "starts_with (c # cs) (p # ps) = (c = p \<and> starts_with cs ps)"

fun str_in :: "string \<Rightarrow> string \<Rightarrow> bool" where
  "str_in sub [] = (sub = [])"
| "str_in sub (c # cs) = (starts_with (c # cs) sub \<or> str_in sub cs)"

section \<open>Configuration\<close>

definition get_env :: "(string \<Rightarrow> string option) \<Rightarrow> string \<Rightarrow> string proc" where
  "get_env environ key =
     (case environ key of
        None \<Rightarrow>
          and_then
            (print_to Stderr (''Error: Environment variable '' @ key @ '' cannot be empty.''))
            (\<lambda>_. sys_exit 1)
      | Some v \<Rightarrow>
          if strip v = []
          then and_then
            (print_to Stderr (''Error: Environment variable '' @ key @ '' cannot be empty.''))
            (\<lambda>_. sys_exit 1)
          else ([], Return v))"

text \<open>The dictionary \<^verbatim>\<open>load_config\<close> returns has three fixed keys: a record.\<close>

record config =
  CLOUDFLARE_EMAIL :: string
  CLOUDFLARE_API_KEY :: string
  ZONE_ID :: string

definition load_config :: "(string \<Rightarrow> string option) \<Rightarrow> config proc" where
  "load_config environ =
     and_then (get_env environ ''CLOUDFLARE_EMAIL'') (\<lambda>email.
     and_then (get_env environ ''CLOUDFLARE_API_KEY'') (\<lambda>api_key.
     and_then (get_env environ ''ZONE_ID'') (\<lambda>zone.
       ([], Return \<lparr>CLOUDFLARE_EMAIL = email, CLOUDFLARE_API_KEY = api_key, ZONE_ID = zone\<rparr>))))"

section \<open>Lister and matcher\<close>

definition get_all_dns_records :: "cloudflare \<Rightarrow> string \<Rightarrow> dns_record list proc" where
  "get_all_dns_records cf zone_id =
     (case records_list cf zone_id of
        Ok all_records \<Rightarrow> ([Call (ListRecords zone_id)], Return all_records)
      | APIError e \<Rightarrow>
          and_then
            ([Call (ListRecords zone_id), Print Stderr (''Error fetching DNS records: '' @ e)],
             Return ())
            (\<lambda>_. sys_exit 1)
      | OtherException e \<Rightarrow>
          and_then
            ([Call (ListRecords zone_id),
              Print Stderr (''An unexpected error occurred while fetching DNS records: '' @ e)],
             Return ())
            (\<lambda>_. sys_exit 1))"

fun find_dns_record :: "string \<Rightarrow> string \<Rightarrow> dns_record list \<Rightarrow> dns_record option" where
  "find_dns_record name record_type [] = None"
| "find_dns_record name record_type (r # records) =
     (if rec_name r = name \<and> rec_type r = record_type then Some r
      else find_dns_record name record_type records)"

section \<open>Create, update, delete\<close>

definition create_dns_record ::
  "cloudflare \<Rightarrow> string \<Rightarrow> string \<Rightarrow> string \<Rightarrow> string \<Rightarrow> bool \<Rightarrow> dns_record proc" where
  "create_dns_record cf zone_id record_type name content proxied =
     and_then
       (print_to Stdout
          (''Attempting to create '' @ record_type @ '' record for '' @ name @ '' -> '' @ content
            @ '' (Proxied: '' @ str_bool proxied @ '')...''))
       (\<lambda>_.
          case records_create cf zone_id record_type name content proxied of
            Ok created_record \<Rightarrow>
              ([Call (CreateRecord zone_id record_type name content proxied),
                Print Stdout (''Successfully created record (ID: '' @ rec_id created_record @ '').'')],
               Return created_record)
          | APIError e \<Rightarrow>
              and_then
                ([Call (CreateRecord zone_id record_type name content proxied),
                  Print Stderr (''Error creating DNS record: '' @ e)],
                 Return ())
                (\<lambda>_.
                   and_then
                     (if str_in ''already exists'' e
                      then print_to Stdout
                        ''Hint: A record with this name and type might already exist.''
                      else ([], Return ()))
                     (\<lambda>_. sys_exit 1))
          | OtherException e \<Rightarrow>
              and_then
                ([Call (CreateRecord zone_id record_type name content proxied),
                  Print Stderr
                    (''An unexpected error occurred while creating DNS record: '' @ e)],
                 Return ())
                (\<lambda>_. sys_exit 1))"

definition update_dns_record ::
  "cloudflare \<Rightarrow> string \<Rightarrow> string \<Rightarrow> string \<Rightarrow> string \<Rightarrow> string \<Rightarrow> bool \<Rightarrow> dns_record proc"
  where
  "update_dns_record cf zone_id dns_record_id record_type name content proxied =
     and_then
       (print_to Stdout
          (''Attempting to update record '' @ name @ '' (ID: '' @ dns_record_id @ '') -> ''
            @ content @ '' (Proxied: '' @ str_bool proxied @ '')...''))
       (\<lambda>_.
          case records_update cf dns_record_id zone_id record_type name content proxied of
            Ok updated_record \<Rightarrow>
              ([Call (UpdateRecord dns_record_id zone_id record_type name content proxied),
                Print Stdout ''Successfully updated record.''],
               Return updated_record)
          | APIError e \<Rightarrow>
              and_then
                ([Call (UpdateRecord dns_record_id zone_id record_type name content proxied),
                  Print Stderr (''Error updating DNS record: '' @ e)],
                 Return ())
                (\<lambda>_. sys_exit 1)
          | OtherException e \<Rightarrow>
              and_then
                ([Call (UpdateRecord dns_record_id zone_id record_type name content proxied),
                  Print Stderr
                    (''An unexpected error occurred while updating DNS record: '' @ e)],
                 Return ())
                (\<lambda>_. sys_exit 1))"

definition delete_dns_record :: "cloudflare \<Rightarrow> string \<Rightarrow> string \<Rightarrow> string \<Rightarrow> bool proc" where
  "delete_dns_record cf zone_id dns_record_id record_name =
     and_then
       (print_to Stdout
          (''Attempting to delete record '' @ record_name @ '' (ID: '' @ dns_record_id @ '')...''))
       (\<lambda>_.
          case records_delete cf dns_record_id zone_id of
            Ok delete_result \<Rightarrow>
              (if (case delete_result of
                     None \<Rightarrow> False
                   | Some d \<Rightarrow> deleted_id d = dns_record_id)
               then
                 ([Call (DeleteRecord dns_record_id zone_id),
                   Print Stdout (''Successfully deleted record '' @ record_name @ ''.'')],
                  Return True)
               else
                 ([Call (DeleteRecord dns_record_id zone_id),
                   Print Stderr
                     (''Warning: Delete operation completed but response format was unexpected for ''
                       @ record_name @ ''. Please verify.'')],
                  Return False))
          | APIError e \<Rightarrow>
              and_then
                ([Call (DeleteRecord dns_record_id zone_id),
                  Print Stderr (''Error deleting DNS record: '' @ e)],
                 Return ())
                (\<lambda>_. sys_exit 1)
          | OtherException e \<Rightarrow>
              and_then
                ([Call (DeleteRecord dns_record_id zone_id),
                  Print Stderr
                    (''An unexpected error occurred while deleting DNS record: '' @ e)],
                 Return ())
                (\<lambda>_. sys_exit 1))"

section \<open>Command handlers\<close>

text \<open>
  The handlers read \<^verbatim>\<open>args.record_name\<close>, \<^verbatim>\<open>args.ip_address\<close> and
  \<^verbatim>\<open>args.proxy\<close>; here they receive them as parameters.  A record object is always
  truthy, so \<^verbatim>\<open>if existing_record\<close> asks whether the matcher found one.  Python's
  \<^verbatim>\<open>existing_record.proxied == proxied\<close> compares an optional flag with a boolean:
  \<^verbatim>\<open>None\<close> equals neither \<^verbatim>\<open>True\<close> nor \<^verbatim>\<open>False\<close>.
\<close>

definition handle_add_or_update ::
  "cloudflare \<Rightarrow> string \<Rightarrow> string \<Rightarrow> string \<Rightarrow> bool \<Rightarrow> unit proc" where
  "handle_add_or_update cf zone_id record_name ip_address proxy =
     (let proxied = proxy; record_type = ''A'' in
      and_then (print_to Stdout (''Fetching existing records for zone '' @ zone_id @ ''...'')) (\<lambda>_.
      and_then (get_all_dns_records cf zone_id) (\<lambda>all_records.
      and_then
        (print_to Stdout
           (''Searching for existing '' @ record_type @ '' record named '' @ apostrophe
             @ record_name @ apostrophe @ ''...''))
        (\<lambda>_.
           case find_dns_record record_name record_type all_records of
             Some existing_record \<Rightarrow>
               and_then
                 (print_to Stdout
                    (''Found existing record (ID: '' @ rec_id existing_record @ '', IP: ''
                      @ rec_content existing_record @ '', Proxied: ''
                      @ str_opt_bool (rec_proxied existing_record) @ '').''))
                 (\<lambda>_.
                    if rec_content existing_record = ip_address
                       \<and> rec_proxied existing_record = Some proxied
                    then print_to Stdout
                      ''Record already exists with the correct IP and proxy status. No changes needed.''
                    else and_then
                      (update_dns_record cf zone_id (rec_id existing_record) record_type
                         record_name ip_address proxied)
                      (\<lambda>_. ([], Return ())))
           | None \<Rightarrow>
               and_then
                 (print_to Stdout
                    (''No existing '' @ record_type @ '' record found for '' @ apostrophe
                      @ record_name @ apostrophe @ ''. Creating new record...''))
                 (\<lambda>_.
                    and_then
                      (create_dns_record cf zone_id record_type record_name ip_address proxied)
                      (\<lambda>_. ([], Return ())))))))"

definition handle_remove :: "cloudflare \<Rightarrow> string \<Rightarrow> string \<Rightarrow> unit proc" where
  "handle_remove cf zone_id record_name =
     (let record_type = ''A'' in
      and_then (print_to Stdout (''Fetching existing records for zone '' @ zone_id @ ''...'')) (\<lambda>_.
      and_then (get_all_dns_records cf zone_id) (\<lambda>all_records.
      and_then
        (print_to Stdout
           (''Searching for existing '' @ record_type @ '' record named '' @ apostrophe
             @ record_name @ apostrophe @ ''...''))
        (\<lambda>_.
           case find_dns_record record_name record_type all_records of
             Some existing_record \<Rightarrow>
               and_then
                 (print_to Stdout
                    (''Found record to delete (ID: '' @ rec_id existing_record @ '').''))
                 (\<lambda>_.
                    and_then
                      (delete_dns_record cf zone_id (rec_id existing_record) record_name)
                      (\<lambda>_. ([], Return ())))
           | None \<Rightarrow>
               and_then
                 (print_to Stderr
                    (''Error: No '' @ record_type @ '' record found with the name '' @ apostrophe
                      @ record_name @ apostrophe @ ''. Nothing to delete.''))
                 (\<lambda>_. sys_exit 1)))))"

text \<open>The dictionary appended for one record, and the loop that appends them in order.\<close>

definition output_record :: "dns_record \<Rightarrow> json" where
  "output_record r =
     JObject
       [(''id'', JStr (rec_id r)),
        (''type'', JStr (rec_type r)),
        (''name'', JStr (rec_name r)),
        (''content'', JStr (rec_content r)),
        (''proxied'', (case rec_proxied r of None \<Rightarrow> JNull | Some b \<Rightarrow> JBool b)),
        (''ttl'', JInt (rec_ttl r)),
        (''created_on'',
           (case rec_created_on r of None \<Rightarrow> JNull | Some d \<Rightarrow> JStr (isoformat d))),
        (''modified_on'',
           (case rec_modified_on r of None \<Rightarrow> JNull | Some d \<Rightarrow> JStr (isoformat d)))]"

fun append_records :: "json list \<Rightarrow> dns_record list \<Rightarrow> json list" where
  "append_records output_records [] = output_records"
| "append_records output_records (r # all_records) =
     append_records (output_records @ [output_record r]) all_records"

definition handle_list :: "cloudflare \<Rightarrow> string \<Rightarrow> unit proc" where
  "handle_list cf zone_id =
     and_then (print_to Stdout (''Fetching existing records for zone '' @ zone_id @ ''...'')) (\<lambda>_.
     and_then (get_all_dns_records cf zone_id) (\<lambda>all_records.
       if all_records = [] then print_to Stdout ''No DNS records found for this zone.''
       else ([PrintJson Stdout (JArray (append_records [] all_records))], Return ())))"

section \<open>Entry point\<close>

text \<open>
  The namespace \<^verbatim>\<open>parse_args\<close> produces: one constructor per subcommand, which also
  stands for the \<^verbatim>\<open>func\<close> default the subparser sets.  \<^verbatim>\<open>argparse\<close> and the
  client's constructor are the libraries' code, so \<^verbatim>\<open>main\<close> takes what they do as
  parameters: \<open>new_client email api_key\<close> is the client or the text of the exception
  raised, and \<open>parse_args\<close> is the outcome of parsing the command line (a namespace, or
  an exit with the usage message).  The \<^verbatim>\<open>store_true\<close> action leaves
  \<^verbatim>\<open>args.proxy\<close> at \<^verbatim>\<open>False\<close> unless \<^verbatim>\<open>--proxy\<close> is given.
\<close>

datatype namespace =
    AddArgs string string bool
  | RmArgs string
  | ListArgs

definition main ::
  "(string \<Rightarrow> string option) \<Rightarrow> (string \<Rightarrow> string \<Rightarrow> string + cloudflare) \<Rightarrow> namespace proc
     \<Rightarrow> unit proc" where
  "main environ new_client parse_args =
     and_then (load_config environ) (\<lambda>config.
       case new_client (CLOUDFLARE_EMAIL config) (CLOUDFLARE_API_KEY config) of
         Inl e \<Rightarrow>
           and_then (print_to Stderr (''Error initializing Cloudflare client: '' @ e))
             (\<lambda>_. sys_exit 1)
       | Inr cf \<Rightarrow>
           and_then parse_args (\<lambda>args.
             case args of
               AddArgs record_name ip_address proxy \<Rightarrow>
                 handle_add_or_update cf (ZONE_ID config) record_name ip_address proxy
             | RmArgs record_name \<Rightarrow> handle_remove cf (ZONE_ID config) record_name
             | ListArgs \<Rightarrow> handle_list cf (ZONE_ID config)))"

text \<open>The status the process ends with: the code of \<^verbatim>\<open>sys.exit\<close>, or 0 on return.\<close>

definition exit_status :: "unit proc \<Rightarrow> int" where
  "exit_status p = (case snd p of Exit code \<Rightarrow> code | Return _ \<Rightarrow> 0)"

section \<open>Vocabulary of the properties\<close>

text \<open>
  A variable is blank when it is unset, empty or made of whitespace only; the three
  variables \<^verbatim>\<open>load_config\<close> reads, in the order it reads them.
\<close>

definition is_blank :: "(string \<Rightarrow> string option) \<Rightarrow> string \<Rightarrow> bool" where
  "is_blank environ key =
     (case environ key of None \<Rightarrow> True | Some v \<Rightarrow> list_all isspace v)"

definition required_vars :: "string list" where
  "required_vars = [''CLOUDFLARE_EMAIL'', ''CLOUDFLARE_API_KEY'', ''ZONE_ID'']"

text \<open>The field names of one element of the \<^verbatim>\<open>list\<close> payload.\<close>

definition listed_fields :: "string list" where
  "listed_fields =
     [''id'', ''type'', ''name'', ''content'', ''proxied'', ''ttl'', ''created_on'', ''modified_on'']"

section \<open>Example records and clients\<close>

definition a_record :: "string \<Rightarrow> string \<Rightarrow> string \<Rightarrow> bool option \<Rightarrow> dns_record" where
  "a_record ident host address flag =
     \<lparr>rec_id = ident, rec_type = ''A'', rec_name = host, rec_content = address,
      rec_proxied = flag, rec_ttl = 1, rec_created_on = None, rec_modified_on = None\<rparr>"

definition cname_record :: "string \<Rightarrow> string \<Rightarrow> string \<Rightarrow> dns_record" where
  "cname_record ident host target =
     \<lparr>rec_id = ident, rec_type = ''CNAME'', rec_name = host, rec_content = target,
      rec_proxied = Some False, rec_ttl = 300,
      rec_created_on = Some (Datetime ''2024-05-01T10:20:30+00:00''),
      rec_modified_on = None\<rparr>"

text \<open>A client whose four methods give fixed answers.\<close>

definition scripted_client ::
  "dns_record list api_result \<Rightarrow> dns_record api_result \<Rightarrow> dns_record api_result
     \<Rightarrow> delete_response option api_result \<Rightarrow> cloudflare" where
  "scripted_client listed created updated deleted =
     \<lparr>records_list = (\<lambda>_. listed),
      records_create = (\<lambda>_ _ _ _ _. created),
      records_update = (\<lambda>_ _ _ _ _ _. updated),
      records_delete = (\<lambda>_ _. deleted)\<rparr>"

text \<open>A zone that holds the given records and accepts every mutation.\<close>

definition zone_client :: "dns_record list \<Rightarrow> cloudflare" where
  "zone_client held =
     \<lparr>records_list = (\<lambda>_. Ok held),
      records_create = (\<lambda>_ _ host address flag. Ok (a_record ''created'' host address (Some flag))),
      records_update =
        (\<lambda>ident _ _ host address flag. Ok (a_record ident host address (Some flag))),
      records_delete = (\<lambda>ident _. Ok (Some \<lparr>deleted_id = ident\<rparr>))\<rparr>"

section \<open>Auxiliary facts\<close>

lemma all_dropWhile_iff:
  "(\<forall>x \<in> set (dropWhile P xs). P x) \<longleftrightarrow> (\<forall>x \<in> set xs. P x)"
  by (induction xs) auto

lemma strip_empty_iff: "strip s = [] \<longleftrightarrow> (\<forall>c \<in> set s. isspace c)"
  by (simp add: strip_def all_dropWhile_iff)

lemma find_dns_record_find:
  "find_dns_record name record_type records =
     List.find (\<lambda>r. rec_name r = name \<and> rec_type r = record_type) records"
  by (induction records) auto

lemma find_dns_record_first:
  "\<forall>x \<in> set pre. \<not> (rec_name x = name \<and> rec_type x = record_type) \<Longrightarrow>
   rec_name r = name \<Longrightarrow> rec_type r = record_type \<Longrightarrow>
   find_dns_record name record_type (pre @ r # post) = Some r"
  by (induction pre) auto

lemma find_dns_record_none:
  "\<forall>x \<in> set records. \<not> (rec_name x = name \<and> rec_type x = record_type) \<Longrightarrow>
   find_dns_record name record_type records = None"
  by (induction records) auto

lemma append_records_map:
  "append_records output_records all_records = output_records @ map output_record all_records"
  by (induction all_records arbitrary: output_records) auto

lemma and_then_Return: "and_then (es, Return x) f = (es @ fst (f x), snd (f x))"
  by (simp add: and_then_def split: prod.splits)

lemma and_then_Exit: "and_then (es, Exit code) f = (es, Exit code)"
  by (simp add: and_then_def)

lemma fst_and_then:
  "fst (and_then p f) = fst p @ (case snd p of Return x \<Rightarrow> fst (f x) | Exit code \<Rightarrow> [])"
  by (cases p; cases "snd p") (auto simp: and_then_def split: prod.splits)

lemma snd_and_then:
  "snd (and_then p f) = (case snd p of Return x \<Rightarrow> snd (f x) | Exit code \<Rightarrow> Exit code)"
  by (cases p; cases "snd p") (auto simp: and_then_def split: prod.splits)

lemmas proc_simps = and_then_Return and_then_Exit print_to_def sys_exit_def

lemma calls_simps:
  "calls [] = []"
  "calls (Call c # es) = c # calls es"
  "calls (Print s line # es) = calls es"
  "calls (PrintJson s v # es) = calls es"
  "calls (es @ es') = calls es @ calls es'"
  by (simp_all add: calls_def)

lemma calls_case_result:
  "calls (case r of Return x \<Rightarrow> f x | Exit code \<Rightarrow> g code)
     = (case r of Return x \<Rightarrow> calls (f x) | Exit code \<Rightarrow> calls (g code))"
  by (cases r) simp_all

lemma calls_update_dns_record:
  "calls (fst (update_dns_record cf zone_id dns_record_id record_type name content proxied))
     = [UpdateRecord dns_record_id zone_id record_type name content proxied]"
  by (simp add: update_dns_record_def proc_simps calls_def split: api_result.splits)

lemma calls_create_dns_record:
  "calls (fst (create_dns_record cf zone_id record_type name content proxied))
     = [CreateRecord zone_id record_type name content proxied]"
  by (simp add: create_dns_record_def proc_simps calls_def split: api_result.splits)

lemma prints_update_dns_record:
  "Print s line \<in> set (fst (update_dns_record cf zone_id dns_record_id record_type name content proxied))
    \<Longrightarrow> line \<noteq> ''Record already exists with the correct IP and proxy status. No changes needed.''"
  by (auto simp add: update_dns_record_def proc_simps split: api_result.splits)

lemma get_env_blank:
  "is_blank environ key \<Longrightarrow>
   get_env environ key
     = ([Print Stderr (''Error: Environment variable '' @ key @ '' cannot be empty.'')], Exit 1)"
  by (auto simp: is_blank_def get_env_def proc_simps strip_empty_iff list_all_iff
      split: option.splits)

lemma get_env_set:
  "\<not> is_blank environ key \<Longrightarrow> \<exists>v. environ key = Some v \<and> get_env environ key = ([], Return v)"
  by (auto simp: is_blank_def get_env_def proc_simps strip_empty_iff list_all_iff
      split: option.splits)

lemma load_config_blank:
  assumes "List.find (is_blank environ) required_vars = Some first"
  shows "load_config environ
     = ([Print Stderr (''Error: Environment variable '' @ first @ '' cannot be empty.'')], Exit 1)"
proof (cases "is_blank environ ''CLOUDFLARE_EMAIL''")
  case True
  with assms have "first = ''CLOUDFLARE_EMAIL''" by (simp add: required_vars_def)
  with True show ?thesis by (simp add: load_config_def get_env_blank and_then_Exit)
next
  case email: False
  then obtain v1 where v1: "get_env environ ''CLOUDFLARE_EMAIL'' = ([], Return v1)"
    using get_env_set by blast
  show ?thesis
  proof (cases "is_blank environ ''CLOUDFLARE_API_KEY''")
    case True
    with assms email have "first = ''CLOUDFLARE_API_KEY''" by (simp add: required_vars_def)
    with True v1 show ?thesis
      by (simp add: load_config_def get_env_blank and_then_Exit and_then_Return)
  next
    case key: False
    then obtain v2 where v2: "get_env environ ''CLOUDFLARE_API_KEY'' = ([], Return v2)"
      using get_env_set by blast
    from assms email key have "first = ''ZONE_ID'' \<and> is_blank environ ''ZONE_ID''"
      by (simp add: required_vars_def split: if_splits)
    with v1 v2 show ?thesis
      by (simp add: load_config_def get_env_blank and_then_Exit and_then_Return)
  qed
qed

lemmas example_defs = zone_client_def scripted_client_def a_record_def cname_record_def

lemmas run_defs = handle_add_or_update_def handle_remove_def handle_list_def Let_def
  get_all_dns_records_def create_dns_record_def update_dns_record_def delete_dns_record_def
  proc_simps str_bool_def str_opt_bool_def apostrophe_def

section \<open>The matcher\<close>

text \<open>
  C1.  For every list of records and every queried name and type, the matcher returns
  the first element whose name and type both equal the queried ones (the element at the
  least index where both equalities hold), and it returns \<^verbatim>\<open>None\<close> exactly when no
  element satisfies both equalities.
\<close>

theorem find_dns_record_first_match:
  "(find_dns_record name record_type records = None \<longleftrightarrow>
      (\<forall>r \<in> set records. \<not> (rec_name r = name \<and> rec_type r = record_type)))
   \<and> (\<forall>r. find_dns_record name record_type records = Some r \<longleftrightarrow>
        (\<exists>i < length records.
           records ! i = r \<and> rec_name r = name \<and> rec_type r = record_type
           \<and> (\<forall>j < i. \<not> (rec_name (records ! j) = name
                          \<and> rec_type (records ! j) = record_type))))"
  unfolding find_dns_record_find
  by (auto simp: find_None_iff find_Some_iff)

theorem find_dns_record_first_match_witness:
  "find_dns_record ''b.example.com'' ''A''
     [cname_record ''1'' ''b.example.com'' ''c.example.com'',
      a_record ''2'' ''a.example.com'' ''1.1.1.1'' None,
      a_record ''3'' ''b.example.com'' ''2.2.2.2'' None,
      a_record ''4'' ''b.example.com'' ''3.3.3.3'' None]
     = Some (a_record ''3'' ''b.example.com'' ''2.2.2.2'' None)
   \<and> find_dns_record ''c.example.com'' ''A''
     [cname_record ''1'' ''b.example.com'' ''c.example.com'',
      a_record ''2'' ''a.example.com'' ''1.1.1.1'' None] = None"
proof -
  let ?rs = "[cname_record ''1'' ''b.example.com'' ''c.example.com'',
      a_record ''2'' ''a.example.com'' ''1.1.1.1'' None,
      a_record ''3'' ''b.example.com'' ''2.2.2.2'' None,
      a_record ''4'' ''b.example.com'' ''3.3.3.3'' None]"
  let ?r = "a_record ''3'' ''b.example.com'' ''2.2.2.2'' None"
  have first: "\<exists>i < length ?rs. ?rs ! i = ?r \<and> rec_name ?r = ''b.example.com'' \<and> rec_type ?r = ''A''
      \<and> (\<forall>j < i. \<not> (rec_name (?rs ! j) = ''b.example.com'' \<and> rec_type (?rs ! j) = ''A''))"
    by (rule exI [of _ 2]) (simp add: a_record_def cname_record_def less_Suc_eq numeral_2_eq_2)
  have none: "\<forall>r \<in> set [cname_record ''1'' ''b.example.com'' ''c.example.com'',
      a_record ''2'' ''a.example.com'' ''1.1.1.1'' None].
      \<not> (rec_name r = ''c.example.com'' \<and> rec_type r = ''A'')"
    by (simp add: a_record_def cname_record_def)
  from first none show ?thesis
    using find_dns_record_first_match [of "''b.example.com''" "''A''" ?rs]
      find_dns_record_first_match [of "''c.example.com''" "''A''"
        "[cname_record ''1'' ''b.example.com'' ''c.example.com'',
          a_record ''2'' ''a.example.com'' ''1.1.1.1'' None]"]
    by blast
qed

section \<open>The add workflow\<close>

text \<open>
  C2 (as stated).  The claim asks for no mutation whenever the fetched set contains a
  record with the requested name, type A, the requested address and the requested proxy
  flag.  The zone below contains such a record (\<open>id-2\<close>), but another A record of the
  same name comes first and differs in its content: the workflow decides on the first
  match alone and issues an update for \<open>id-1\<close>.
\<close>

theorem add_identical_duplicate_counterexample:
  "records_list
      (zone_client
        [a_record ''id-1'' ''host.example.com'' ''5.6.7.8'' (Some False),
         a_record ''id-2'' ''host.example.com'' ''1.2.3.4'' (Some False)]) ''zone-1''
     = Ok [a_record ''id-1'' ''host.example.com'' ''5.6.7.8'' (Some False),
           a_record ''id-2'' ''host.example.com'' ''1.2.3.4'' (Some False)]
   \<and> a_record ''id-2'' ''host.example.com'' ''1.2.3.4'' (Some False)
       \<in> set [a_record ''id-1'' ''host.example.com'' ''5.6.7.8'' (Some False),
              a_record ''id-2'' ''host.example.com'' ''1.2.3.4'' (Some False)]
   \<and> rec_name (a_record ''id-2'' ''host.example.com'' ''1.2.3.4'' (Some False))
       = ''host.example.com''
   \<and> rec_type (a_record ''id-2'' ''host.example.com'' ''1.2.3.4'' (Some False)) = ''A''
   \<and> rec_content (a_record ''id-2'' ''host.example.com'' ''1.2.3.4'' (Some False)) = ''1.2.3.4''
   \<and> rec_proxied (a_record ''id-2'' ''host.example.com'' ''1.2.3.4'' (Some False)) = Some False
   \<and> filter is_mutation
       (calls (fst (handle_add_or_update
          (zone_client
            [a_record ''id-1'' ''host.example.com'' ''5.6.7.8'' (Some False),
             a_record ''id-2'' ''host.example.com'' ''1.2.3.4'' (Some False)])
          ''zone-1'' ''host.example.com'' ''1.2.3.4'' False)))
     = [UpdateRecord ''id-1'' ''zone-1'' ''A'' ''host.example.com'' ''1.2.3.4'' False]"
  by (simp add: run_defs example_defs calls_simps)

text \<open>
  C2 (amended).  When the first record of the fetched set that has the requested name
  and type A carries the requested address as its content and the requested proxy flag,
  the add workflow calls the API only to list the records (no create, no update, no
  delete), ends with the line saying that no changes are needed, and returns.
\<close>

theorem add_identical_first_match_is_noop:
  assumes "records_list cf zone_id = Ok (pre @ r # post)"
    and "\<forall>x \<in> set pre. \<not> (rec_name x = record_name \<and> rec_type x = ''A'')"
    and "rec_name r = record_name" and "rec_type r = ''A''"
    and "rec_content r = ip_address" and "rec_proxied r = Some proxy"
  shows "calls (fst (handle_add_or_update cf zone_id record_name ip_address proxy))
           = [ListRecords zone_id]
       \<and> filter is_mutation
           (calls (fst (handle_add_or_update cf zone_id record_name ip_address proxy))) = []
       \<and> last (fst (handle_add_or_update cf zone_id record_name ip_address proxy))
           = Print Stdout
               ''Record already exists with the correct IP and proxy status. No changes needed.''
       \<and> snd (handle_add_or_update cf zone_id record_name ip_address proxy) = Return ()"
proof -
  have found: "find_dns_record record_name ''A'' (pre @ r # post) = Some r"
    using assms(2-4) by (rule find_dns_record_first)
  show ?thesis
    using assms(1,5,6) found
    by (simp add: handle_add_or_update_def Let_def get_all_dns_records_def proc_simps calls_simps)
qed

theorem add_identical_first_match_is_noop_witness:
  "records_list
      (zone_client
        [cname_record ''id-0'' ''host.example.com'' ''origin.example.net'',
         a_record ''id-1'' ''host.example.com'' ''1.2.3.4'' (Some True),
         a_record ''id-2'' ''host.example.com'' ''5.6.7.8'' (Some True)]) ''zone-1''
     = Ok ([cname_record ''id-0'' ''host.example.com'' ''origin.example.net'']
           @ a_record ''id-1'' ''host.example.com'' ''1.2.3.4'' (Some True)
           # [a_record ''id-2'' ''host.example.com'' ''5.6.7.8'' (Some True)])
   \<and> calls (fst (handle_add_or_update
        (zone_client
          [cname_record ''id-0'' ''host.example.com'' ''origin.example.net'',
           a_record ''id-1'' ''host.example.com'' ''1.2.3.4'' (Some True),
           a_record ''id-2'' ''host.example.com'' ''5.6.7.8'' (Some True)])
        ''zone-1'' ''host.example.com'' ''1.2.3.4'' True))
     = [ListRecords ''zone-1'']
   \<and> snd (handle_add_or_update
        (zone_client
          [cname_record ''id-0'' ''host.example.com'' ''origin.example.net'',
           a_record ''id-1'' ''host.example.com'' ''1.2.3.4'' (Some True),
           a_record ''id-2'' ''host.example.com'' ''5.6.7.8'' (Some True)])
        ''zone-1'' ''host.example.com'' ''1.2.3.4'' True)
     = Return ()"
  using add_identical_first_match_is_noop
    [of "zone_client
          [cname_record ''id-0'' ''host.example.com'' ''origin.example.net'',
           a_record ''id-1'' ''host.example.com'' ''1.2.3.4'' (Some True),
           a_record ''id-2'' ''host.example.com'' ''5.6.7.8'' (Some True)]"
        "''zone-1''"
        "[cname_record ''id-0'' ''host.example.com'' ''origin.example.net'']"
        "a_record ''id-1'' ''host.example.com'' ''1.2.3.4'' (Some True)"
        "[a_record ''id-2'' ''host.example.com'' ''5.6.7.8'' (Some True)]"
        "''host.example.com''" "''1.2.3.4''" True]
  by (simp add: example_defs)

text \<open>
  C3 (as stated).  The claim asks for one update whenever the fetched set contains a
  record with the requested name and type A whose content differs from the requested
  address.  The zone below contains such a record (\<open>id-2\<close>), but an A record of the same
  name with the requested address and flag comes first: the workflow takes the no-op
  branch and the only API call is the listing.
\<close>

theorem add_different_duplicate_counterexample:
  "records_list
      (zone_client
        [a_record ''id-1'' ''host.example.com'' ''1.2.3.4'' (Some False),
         a_record ''id-2'' ''host.example.com'' ''5.6.7.8'' (Some False)]) ''zone-1''
     = Ok [a_record ''id-1'' ''host.example.com'' ''1.2.3.4'' (Some False),
           a_record ''id-2'' ''host.example.com'' ''5.6.7.8'' (Some False)]
   \<and> a_record ''id-2'' ''host.example.com'' ''5.6.7.8'' (Some False)
       \<in> set [a_record ''id-1'' ''host.example.com'' ''1.2.3.4'' (Some False),
              a_record ''id-2'' ''host.example.com'' ''5.6.7.8'' (Some False)]
   \<and> rec_name (a_record ''id-2'' ''host.example.com'' ''5.6.7.8'' (Some False))
       = ''host.example.com''
   \<and> rec_type (a_record ''id-2'' ''host.example.com'' ''5.6.7.8'' (Some False)) = ''A''
   \<and> rec_content (a_record ''id-2'' ''host.example.com'' ''5.6.7.8'' (Some False)) \<noteq> ''1.2.3.4''
   \<and> calls (fst (handle_add_or_update
          (zone_client
            [a_record ''id-1'' ''host.example.com'' ''1.2.3.4'' (Some False),
             a_record ''id-2'' ''host.example.com'' ''5.6.7.8'' (Some False)])
          ''zone-1'' ''host.example.com'' ''1.2.3.4'' False))
     = [ListRecords ''zone-1'']"
  by (simp add: run_defs example_defs calls_simps)

text \<open>
  C3 (amended).  When the first record of the fetched set that has the requested name
  and type A has a content different from the requested address, the add workflow makes
  exactly two API calls: the listing, then one update, issued with the identifier of that
  record and the requested name, address and proxy flag.  No create call is made.
\<close>

theorem add_different_first_match_updates:
  assumes "records_list cf zone_id = Ok (pre @ r # post)"
    and "\<forall>x \<in> set pre. \<not> (rec_name x = record_name \<and> rec_type x = ''A'')"
    and "rec_name r = record_name" and "rec_type r = ''A''"
    and "rec_content r \<noteq> ip_address"
  shows "calls (fst (handle_add_or_update cf zone_id record_name ip_address proxy))
           = [ListRecords zone_id,
              UpdateRecord (rec_id r) zone_id ''A'' record_name ip_address proxy]"
proof -
  have found: "find_dns_record record_name ''A'' (pre @ r # post) = Some r"
    using assms(2-4) by (rule find_dns_record_first)
  show ?thesis
    using assms(1,5) found
    by (simp add: handle_add_or_update_def Let_def get_all_dns_records_def proc_simps calls_simps
        fst_and_then calls_update_dns_record calls_case_result split: result.splits)
qed

theorem add_different_first_match_updates_witness:
  "rec_content (a_record ''id-1'' ''host.example.com'' ''5.6.7.8'' (Some False)) \<noteq> ''1.2.3.4''
   \<and> calls (fst (handle_add_or_update
        (zone_client
          [a_record ''id-0'' ''other.example.com'' ''9.9.9.9'' None,
           a_record ''id-1'' ''host.example.com'' ''5.6.7.8'' (Some False)])
        ''zone-1'' ''host.example.com'' ''1.2.3.4'' False))
     = [ListRecords ''zone-1'',
        UpdateRecord ''id-1'' ''zone-1'' ''A'' ''host.example.com'' ''1.2.3.4'' False]"
  using add_different_first_match_updates
    [of "zone_client
          [a_record ''id-0'' ''other.example.com'' ''9.9.9.9'' None,
           a_record ''id-1'' ''host.example.com'' ''5.6.7.8'' (Some False)]"
        "''zone-1''"
        "[a_record ''id-0'' ''other.example.com'' ''9.9.9.9'' None]"
        "a_record ''id-1'' ''host.example.com'' ''5.6.7.8'' (Some False)"
        "[]" "''host.example.com''" "''1.2.3.4''" False]
  by (simp add: example_defs)

text \<open>
  C4.  When the fetched set (empty or not) has no record with the requested name and
  type A, the add workflow makes exactly two API calls: the listing, then one create for
  an A record with the requested name and address.  No update call is made.  The create
  call carries the value of \<^verbatim>\<open>args.proxy\<close>, so it carries \<^verbatim>\<open>proxied=False\<close> when
  \<^verbatim>\<open>--proxy\<close> is not given.
\<close>

theorem add_without_match_creates:
  assumes "records_list cf zone_id = Ok records"
    and "\<forall>x \<in> set records. \<not> (rec_name x = record_name \<and> rec_type x = ''A'')"
  shows "calls (fst (handle_add_or_update cf zone_id record_name ip_address proxy))
           = [ListRecords zone_id, CreateRecord zone_id ''A'' record_name ip_address proxy]
       \<and> (\<not> proxy \<longrightarrow>
            calls (fst (handle_add_or_update cf zone_id record_name ip_address proxy))
              = [ListRecords zone_id, CreateRecord zone_id ''A'' record_name ip_address False])"
proof -
  have absent: "find_dns_record record_name ''A'' records = None"
    using assms(2) by (rule find_dns_record_none)
  show ?thesis
    using assms(1) absent
    by (simp add: handle_add_or_update_def Let_def get_all_dns_records_def proc_simps calls_simps
        fst_and_then calls_create_dns_record calls_case_result split: result.splits)
qed

theorem add_without_match_creates_witness:
  "calls (fst (handle_add_or_update (zone_client []) ''zone-1'' ''host.example.com''
       ''1.2.3.4'' False))
     = [ListRecords ''zone-1'',
        CreateRecord ''zone-1'' ''A'' ''host.example.com'' ''1.2.3.4'' False]
   \<and> calls (fst (handle_add_or_update
        (zone_client [cname_record ''id-0'' ''host.example.com'' ''origin.example.net''])
        ''zone-1'' ''host.example.com'' ''1.2.3.4'' True))
     = [ListRecords ''zone-1'',
        CreateRecord ''zone-1'' ''A'' ''host.example.com'' ''1.2.3.4'' True]"
  using add_without_match_creates
    [of "zone_client []" "''zone-1''" "[]" "''host.example.com''" "''1.2.3.4''" False]
    add_without_match_creates
    [of "zone_client [cname_record ''id-0'' ''host.example.com'' ''origin.example.net'']"
        "''zone-1''" "[cname_record ''id-0'' ''host.example.com'' ''origin.example.net'']"
        "''host.example.com''" "''1.2.3.4''" True]
  by (simp add: example_defs)

text \<open>
  C10.  When the first record with the requested name and type A has its proxied field
  unset, the add workflow never takes the no-op branch, whatever the requested address
  and proxy flag (also when the content equals the address and the flag is off): it
  issues one update with that record's identifier, and the no-changes line is not
  printed.
\<close>

theorem add_unset_proxied_updates:
  assumes "records_list cf zone_id = Ok (pre @ r # post)"
    and "\<forall>x \<in> set pre. \<not> (rec_name x = record_name \<and> rec_type x = ''A'')"
    and "rec_name r = record_name" and "rec_type r = ''A''"
    and "rec_proxied r = None"
  shows "calls (fst (handle_add_or_update cf zone_id record_name ip_address proxy))
           = [ListRecords zone_id,
              UpdateRecord (rec_id r) zone_id ''A'' record_name ip_address proxy]
       \<and> Print Stdout
            ''Record already exists with the correct IP and proxy status. No changes needed.''
           \<notin> set (fst (handle_add_or_update cf zone_id record_name ip_address proxy))"
proof -
  have found: "find_dns_record record_name ''A'' (pre @ r # post) = Some r"
    using assms(2-4) by (rule find_dns_record_first)
  show ?thesis
    using assms(1,5) found
    by (auto simp add: handle_add_or_update_def Let_def get_all_dns_records_def proc_simps calls_simps
        fst_and_then calls_update_dns_record calls_case_result split: result.splits
        dest: prints_update_dns_record)
qed

theorem add_unset_proxied_updates_witness:
  "rec_content (a_record ''id-1'' ''host.example.com'' ''1.2.3.4'' None) = ''1.2.3.4''
   \<and> calls (fst (handle_add_or_update
        (zone_client [a_record ''id-1'' ''host.example.com'' ''1.2.3.4'' None])
        ''zone-1'' ''host.example.com'' ''1.2.3.4'' False))
     = [ListRecords ''zone-1'',
        UpdateRecord ''id-1'' ''zone-1'' ''A'' ''host.example.com'' ''1.2.3.4'' False]"
  using add_unset_proxied_updates
    [of "zone_client [a_record ''id-1'' ''host.example.com'' ''1.2.3.4'' None]"
        "''zone-1''" "[]" "a_record ''id-1'' ''host.example.com'' ''1.2.3.4'' None" "[]"
        "''host.example.com''" "''1.2.3.4''" False]
  by (simp add: example_defs)

section \<open>The rm workflow\<close>

text \<open>
  C5.  When no record of the fetched set has the requested name and type A, the rm
  workflow prints to the error stream a line that names the absent record, leaves the
  process with status 1, and has called the API only to list the records: no delete
  call is made.
\<close>

theorem rm_without_match_fails:
  assumes "records_list cf zone_id = Ok records"
    and "\<forall>x \<in> set records. \<not> (rec_name x = record_name \<and> rec_type x = ''A'')"
  shows "handle_remove cf zone_id record_name
           = ([Print Stdout (''Fetching existing records for zone '' @ zone_id @ ''...''),
               Call (ListRecords zone_id),
               Print Stdout
                 (''Searching for existing A record named '' @ apostrophe @ record_name
                   @ apostrophe @ ''...''),
               Print Stderr
                 (''Error: No A record found with the name '' @ apostrophe @ record_name
                   @ apostrophe @ ''. Nothing to delete.'')],
              Exit 1)
       \<and> exit_status (handle_remove cf zone_id record_name) \<noteq> 0
       \<and> filter is_mutation (calls (fst (handle_remove cf zone_id record_name))) = []"
proof -
  have absent: "find_dns_record record_name ''A'' records = None"
    using assms(2) by (rule find_dns_record_none)
  have run: "handle_remove cf zone_id record_name
           = ([Print Stdout (''Fetching existing records for zone '' @ zone_id @ ''...''),
               Call (ListRecords zone_id),
               Print Stdout
                 (''Searching for existing A record named '' @ apostrophe @ record_name
                   @ apostrophe @ ''...''),
               Print Stderr
                 (''Error: No A record found with the name '' @ apostrophe @ record_name
                   @ apostrophe @ ''. Nothing to delete.'')],
              Exit 1)"
    using assms(1) absent
    by (simp add: handle_remove_def Let_def get_all_dns_records_def proc_simps)
  show ?thesis
    unfolding run by (simp add: exit_status_def calls_simps)
qed

theorem rm_without_match_fails_witness:
  "handle_remove
      (zone_client [a_record ''id-1'' ''host.example.com'' ''1.2.3.4'' (Some False)])
      ''zone-1'' ''missing.example.com''
     = ([Print Stdout ''Fetching existing records for zone zone-1...'',
         Call (ListRecords ''zone-1''),
         Print Stdout
           (''Searching for existing A record named '' @ apostrophe @ ''missing.example.com''
             @ apostrophe @ ''...''),
         Print Stderr
           (''Error: No A record found with the name '' @ apostrophe @ ''missing.example.com''
             @ apostrophe @ ''. Nothing to delete.'')],
        Exit 1)
   \<and> exit_status
        (handle_remove
          (zone_client [a_record ''id-1'' ''host.example.com'' ''1.2.3.4'' (Some False)])
          ''zone-1'' ''missing.example.com'') = 1"
  using rm_without_match_fails
    [of "zone_client [a_record ''id-1'' ''host.example.com'' ''1.2.3.4'' (Some False)]"
        "''zone-1''" "[a_record ''id-1'' ''host.example.com'' ''1.2.3.4'' (Some False)]"
        "''missing.example.com''"]
  by (simp add: example_defs exit_status_def)

section \<open>Configuration errors\<close>

text \<open>
  C6.  When one of the three required variables is unset, empty or whitespace-only,
  the program prints one line to the error stream, naming the first blank variable in
  the order \<^verbatim>\<open>load_config\<close> reads them, and leaves with status 1.  Nothing else
  happens: the client is not constructed, the command line is not parsed, and no API
  call is made, whatever the client and the command line are.
\<close>

theorem blank_variable_stops_before_any_call:
  assumes "key \<in> set required_vars" and "is_blank environ key"
  shows "\<exists>first. List.find (is_blank environ) required_vars = Some first
           \<and> first \<in> set required_vars \<and> is_blank environ first
           \<and> main environ new_client parse_args
               = ([Print Stderr (''Error: Environment variable '' @ first @ '' cannot be empty.'')],
                  Exit 1)
           \<and> calls (fst (main environ new_client parse_args)) = []
           \<and> exit_status (main environ new_client parse_args) \<noteq> 0"
proof -
  from assms obtain first where first: "List.find (is_blank environ) required_vars = Some first"
    by (cases "List.find (is_blank environ) required_vars") (auto simp: find_None_iff)
  then have props: "first \<in> set required_vars \<and> is_blank environ first"
    by (auto simp: find_Some_iff)
  from first have "main environ new_client parse_args
      = ([Print Stderr (''Error: Environment variable '' @ first @ '' cannot be empty.'')], Exit 1)"
    by (simp add: main_def load_config_blank and_then_Exit)
  with first props show ?thesis
    by (simp add: calls_simps exit_status_def)
qed

theorem blank_variable_stops_before_any_call_witness:
  "is_blank [''CLOUDFLARE_EMAIL'' \<mapsto> ''me@example.com'', ''CLOUDFLARE_API_KEY'' \<mapsto> '' ''] ''ZONE_ID''
   \<and> is_blank [''CLOUDFLARE_EMAIL'' \<mapsto> ''me@example.com'', ''CLOUDFLARE_API_KEY'' \<mapsto> '' '']
        ''CLOUDFLARE_API_KEY''
   \<and> main [''CLOUDFLARE_EMAIL'' \<mapsto> ''me@example.com'', ''CLOUDFLARE_API_KEY'' \<mapsto> '' '']
        (\<lambda>email api_key. Inr (zone_client [])) ([], Return ListArgs)
     = ([Print Stderr ''Error: Environment variable CLOUDFLARE_API_KEY cannot be empty.''],
        Exit 1)"
proof -
  let ?env = "[''CLOUDFLARE_EMAIL'' \<mapsto> ''me@example.com'', ''CLOUDFLARE_API_KEY'' \<mapsto> '' '']"
  have zone: "is_blank ?env ''ZONE_ID''"
    by (simp add: is_blank_def)
  have key: "is_blank ?env ''CLOUDFLARE_API_KEY''"
    by (simp add: is_blank_def isspace_def)
  have first: "List.find (is_blank ?env) required_vars = Some ''CLOUDFLARE_API_KEY''"
    by (simp add: required_vars_def is_blank_def isspace_def)
  have "''ZONE_ID'' \<in> set required_vars"
    by (simp add: required_vars_def)
  from blank_variable_stops_before_any_call [OF this zone,
      of "\<lambda>email api_key. Inr (zone_client [])" "([], Return ListArgs)"] first
  have "main ?env (\<lambda>email api_key. Inr (zone_client [])) ([], Return ListArgs)
     = ([Print Stderr ''Error: Environment variable CLOUDFLARE_API_KEY cannot be empty.''],
        Exit 1)"
    by auto
  with zone key show ?thesis by simp
qed

section \<open>The list workflow\<close>

text \<open>
  C7.  After a successful fetch, the list workflow prints to standard output either
  the line \<^verbatim>\<open>No DNS records found for this zone.\<close> (empty set, and then no array),
  or one JSON array with one object per fetched record, in order.  Each object has
  exactly the fields id, type, name, content, proxied, ttl, created_on and modified_on;
  a timestamp is the ISO rendering of the record's timestamp, or null when it is
  unset.
\<close>

theorem handle_list_output:
  assumes "records_list cf zone_id = Ok records"
  shows "(records = [] \<longrightarrow>
            handle_list cf zone_id
              = ([Print Stdout (''Fetching existing records for zone '' @ zone_id @ ''...''),
                  Call (ListRecords zone_id),
                  Print Stdout ''No DNS records found for this zone.''],
                 Return ()))
       \<and> (records \<noteq> [] \<longrightarrow>
            (\<exists>payload.
               handle_list cf zone_id
                 = ([Print Stdout (''Fetching existing records for zone '' @ zone_id @ ''...''),
                     Call (ListRecords zone_id),
                     PrintJson Stdout (JArray payload)],
                    Return ())
               \<and> length payload = length records
               \<and> (\<forall>i < length records.
                    \<exists>fields.
                      payload ! i = JObject fields
                      \<and> map fst fields = listed_fields
                      \<and> map_of fields ''id'' = Some (JStr (rec_id (records ! i)))
                      \<and> map_of fields ''type'' = Some (JStr (rec_type (records ! i)))
                      \<and> map_of fields ''name'' = Some (JStr (rec_name (records ! i)))
                      \<and> map_of fields ''content'' = Some (JStr (rec_content (records ! i)))
                      \<and> map_of fields ''proxied''
                          = Some (case rec_proxied (records ! i) of
                                    None \<Rightarrow> JNull | Some b \<Rightarrow> JBool b)
                      \<and> map_of fields ''ttl'' = Some (JInt (rec_ttl (records ! i)))
                      \<and> map_of fields ''created_on''
                          = Some (case rec_created_on (records ! i) of
                                    None \<Rightarrow> JNull | Some d \<Rightarrow> JStr (isoformat d))
                      \<and> map_of fields ''modified_on''
                          = Some (case rec_modified_on (records ! i) of
                                    None \<Rightarrow> JNull | Some d \<Rightarrow> JStr (isoformat d)))))"
proof (intro conjI impI)
  assume "records = []"
  with assms show "handle_list cf zone_id
              = ([Print Stdout (''Fetching existing records for zone '' @ zone_id @ ''...''),
                  Call (ListRecords zone_id),
                  Print Stdout ''No DNS records found for this zone.''],
                 Return ())"
    by (simp add: handle_list_def get_all_dns_records_def proc_simps)
next
  assume "records \<noteq> []"
  with assms have run: "handle_list cf zone_id
                 = ([Print Stdout (''Fetching existing records for zone '' @ zone_id @ ''...''),
                     Call (ListRecords zone_id),
                     PrintJson Stdout (JArray (map output_record records))],
                    Return ())"
    by (simp add: handle_list_def get_all_dns_records_def proc_simps append_records_map)
  show "\<exists>payload.
               handle_list cf zone_id
                 = ([Print Stdout (''Fetching existing records for zone '' @ zone_id @ ''...''),
                     Call (ListRecords zone_id),
                     PrintJson Stdout (JArray payload)],
                    Return ())
               \<and> length payload = length records
               \<and> (\<forall>i < length records.
                    \<exists>fields.
                      payload ! i = JObject fields
                      \<and> map fst fields = listed_fields
                      \<and> map_of fields ''id'' = Some (JStr (rec_id (records ! i)))
                      \<and> map_of fields ''type'' = Some (JStr (rec_type (records ! i)))
                      \<and> map_of fields ''name'' = Some (JStr (rec_name (records ! i)))
                      \<and> map_of fields ''content'' = Some (JStr (rec_content (records ! i)))
                      \<and> map_of fields ''proxied''
                          = Some (case rec_proxied (records ! i) of
                                    None \<Rightarrow> JNull | Some b \<Rightarrow> JBool b)
                      \<and> map_of fields ''ttl'' = Some (JInt (rec_ttl (records ! i)))
                      \<and> map_of fields ''created_on''
                          = Some (case rec_created_on (records ! i) of
                                    None \<Rightarrow> JNull | Some d \<Rightarrow> JStr (isoformat d))
                      \<and> map_of fields ''modified_on''
                          = Some (case rec_modified_on (records ! i) of
                                    None \<Rightarrow> JNull | Some d \<Rightarrow> JStr (isoformat d)))"
    unfolding run
    by (rule exI [of _ "map output_record records"])
       (simp add: output_record_def listed_fields_def)
qed

theorem handle_list_output_witness:
  "handle_list (zone_client []) ''zone-1''
     = ([Print Stdout ''Fetching existing records for zone zone-1...'',
         Call (ListRecords ''zone-1''),
         Print Stdout ''No DNS records found for this zone.''],
        Return ())
   \<and> handle_list
        (zone_client
          [cname_record ''id-0'' ''www.example.com'' ''origin.example.net'',
           a_record ''id-1'' ''host.example.com'' ''1.2.3.4'' None]) ''zone-1''
     = ([Print Stdout ''Fetching existing records for zone zone-1...'',
         Call (ListRecords ''zone-1''),
         PrintJson Stdout
           (JArray
             [JObject
                [(''id'', JStr ''id-0''), (''type'', JStr ''CNAME''),
                 (''name'', JStr ''www.example.com''), (''content'', JStr ''origin.example.net''),
                 (''proxied'', JBool False), (''ttl'', JInt 300),
                 (''created_on'', JStr ''2024-05-01T10:20:30+00:00''),
                 (''modified_on'', JNull)],
              JObject
                [(''id'', JStr ''id-1''), (''type'', JStr ''A''),
                 (''name'', JStr ''host.example.com''), (''content'', JStr ''1.2.3.4''),
                 (''proxied'', JNull), (''ttl'', JInt 1),
                 (''created_on'', JNull), (''modified_on'', JNull)]])],
        Return ())"
proof -
  let ?rs = "[cname_record ''id-0'' ''www.example.com'' ''origin.example.net'',
           a_record ''id-1'' ''host.example.com'' ''1.2.3.4'' None]"
  have empty: "handle_list (zone_client []) ''zone-1''
     = ([Print Stdout ''Fetching existing records for zone zone-1...'',
         Call (ListRecords ''zone-1''),
         Print Stdout ''No DNS records found for this zone.''],
        Return ())"
    using handle_list_output [of "zone_client []" "''zone-1''" "[]"]
    by (simp add: zone_client_def)
  from handle_list_output [of "zone_client ?rs" "''zone-1''" ?rs]
  obtain payload where run: "handle_list (zone_client ?rs) ''zone-1''
                 = ([Print Stdout (''Fetching existing records for zone '' @ ''zone-1'' @ ''...''),
                     Call (ListRecords ''zone-1''),
                     PrintJson Stdout (JArray payload)],
                    Return ())"
    and len: "length payload = length ?rs"
    by (auto simp: zone_client_def)
  have "handle_list (zone_client ?rs) ''zone-1''
     = ([Print Stdout ''Fetching existing records for zone zone-1...'',
         Call (ListRecords ''zone-1''),
         PrintJson Stdout (JArray (map output_record ?rs))],
        Return ())"
    by (simp add: handle_list_def get_all_dns_records_def proc_simps zone_client_def)
  with empty len show ?thesis
    by (simp add: output_record_def a_record_def cname_record_def)
qed

section \<open>Soft and fatal provider failures\<close>

text \<open>
  C8.  A delete whose response arrives without an exception but is falsy or carries
  another identifier than the requested one prints a warning to the error stream and
  returns \<^verbatim>\<open>False\<close>; the rm workflow then returns normally and the process ends with
  status 0.  An \<^verbatim>\<open>APIError\<close> raised by delete, create, update or list prints a
  diagnostic to the error stream and leaves the process with status 1.
\<close>

theorem delete_mismatch_is_soft_other_errors_fatal:
  "(records_delete cf dns_record_id zone_id = Ok delete_result
      \<and> (delete_result = None \<or> (\<exists>d. delete_result = Some d \<and> deleted_id d \<noteq> dns_record_id))
    \<longrightarrow> delete_dns_record cf zone_id dns_record_id record_name
          = ([Print Stdout
                (''Attempting to delete record '' @ record_name @ '' (ID: '' @ dns_record_id
                  @ '')...''),
              Call (DeleteRecord dns_record_id zone_id),
              Print Stderr
                (''Warning: Delete operation completed but response format was unexpected for ''
                  @ record_name @ ''. Please verify.'')],
             Return False))
   \<and> (records_list cf zone_id = Ok records
      \<and> find_dns_record record_name ''A'' records = Some r
      \<and> records_delete cf (rec_id r) zone_id = Ok delete_result
      \<and> (delete_result = None \<or> (\<exists>d. delete_result = Some d \<and> deleted_id d \<noteq> rec_id r))
    \<longrightarrow> snd (handle_remove cf zone_id record_name) = Return ()
        \<and> exit_status (handle_remove cf zone_id record_name) = 0)
   \<and> (records_delete cf dns_record_id zone_id = APIError e
    \<longrightarrow> delete_dns_record cf zone_id dns_record_id record_name
          = ([Print Stdout
                (''Attempting to delete record '' @ record_name @ '' (ID: '' @ dns_record_id
                  @ '')...''),
              Call (DeleteRecord dns_record_id zone_id),
              Print Stderr (''Error deleting DNS record: '' @ e)],
             Exit 1))
   \<and> (records_create cf zone_id record_type name content proxied = APIError e
    \<longrightarrow> snd (create_dns_record cf zone_id record_type name content proxied) = Exit 1
        \<and> printed_on Stderr (fst (create_dns_record cf zone_id record_type name content proxied))
            = [''Error creating DNS record: '' @ e])
   \<and> (records_update cf dns_record_id zone_id record_type name content proxied = APIError e
    \<longrightarrow> snd (update_dns_record cf zone_id dns_record_id record_type name content proxied)
          = Exit 1
        \<and> printed_on Stderr
            (fst (update_dns_record cf zone_id dns_record_id record_type name content proxied))
            = [''Error updating DNS record: '' @ e])
   \<and> (records_list cf zone_id = APIError e
    \<longrightarrow> get_all_dns_records cf zone_id
          = ([Call (ListRecords zone_id), Print Stderr (''Error fetching DNS records: '' @ e)],
             Exit 1))"
proof (intro conjI impI)
  assume "records_delete cf dns_record_id zone_id = Ok delete_result
      \<and> (delete_result = None \<or> (\<exists>d. delete_result = Some d \<and> deleted_id d \<noteq> dns_record_id))"
  then show "delete_dns_record cf zone_id dns_record_id record_name
          = ([Print Stdout
                (''Attempting to delete record '' @ record_name @ '' (ID: '' @ dns_record_id
                  @ '')...''),
              Call (DeleteRecord dns_record_id zone_id),
              Print Stderr
                (''Warning: Delete operation completed but response format was unexpected for ''
                  @ record_name @ ''. Please verify.'')],
             Return False)"
    by (auto simp: delete_dns_record_def proc_simps)
next
  assume a: "records_list cf zone_id = Ok records
      \<and> find_dns_record record_name ''A'' records = Some r
      \<and> records_delete cf (rec_id r) zone_id = Ok delete_result
      \<and> (delete_result = None \<or> (\<exists>d. delete_result = Some d \<and> deleted_id d \<noteq> rec_id r))"
  then have soft: "snd (delete_dns_record cf zone_id (rec_id r) record_name) = Return False"
    by (auto simp: delete_dns_record_def proc_simps)
  with a show "snd (handle_remove cf zone_id record_name) = Return ()"
    by (simp add: handle_remove_def Let_def get_all_dns_records_def proc_simps snd_and_then)
  then show "exit_status (handle_remove cf zone_id record_name) = 0"
    by (simp add: exit_status_def)
next
  assume "records_delete cf dns_record_id zone_id = APIError e"
  then show "delete_dns_record cf zone_id dns_record_id record_name
          = ([Print Stdout
                (''Attempting to delete record '' @ record_name @ '' (ID: '' @ dns_record_id
                  @ '')...''),
              Call (DeleteRecord dns_record_id zone_id),
              Print Stderr (''Error deleting DNS record: '' @ e)],
             Exit 1)"
    by (simp add: delete_dns_record_def proc_simps)
next
  assume a: "records_create cf zone_id record_type name content proxied = APIError e"
  then show "snd (create_dns_record cf zone_id record_type name content proxied) = Exit 1"
    by (simp add: create_dns_record_def proc_simps)
  from a show "printed_on Stderr (fst (create_dns_record cf zone_id record_type name content proxied))
            = [''Error creating DNS record: '' @ e]"
    by (simp add: create_dns_record_def proc_simps printed_on_def)
next
  assume a: "records_update cf dns_record_id zone_id record_type name content proxied = APIError e"
  then show "snd (update_dns_record cf zone_id dns_record_id record_type name content proxied)
          = Exit 1"
    by (simp add: update_dns_record_def proc_simps)
  from a show "printed_on Stderr
            (fst (update_dns_record cf zone_id dns_record_id record_type name content proxied))
            = [''Error updating DNS record: '' @ e]"
    by (simp add: update_dns_record_def proc_simps printed_on_def)
next
  assume "records_list cf zone_id = APIError e"
  then show "get_all_dns_records cf zone_id
          = ([Call (ListRecords zone_id), Print Stderr (''Error fetching DNS records: '' @ e)],
             Exit 1)"
    by (simp add: get_all_dns_records_def proc_simps)
qed

theorem delete_mismatch_is_soft_other_errors_fatal_witness:
  "delete_dns_record
      (scripted_client (Ok []) (APIError ''quota'') (APIError ''quota'')
         (Ok (Some \<lparr>deleted_id = ''id-9''\<rparr>)))
      ''zone-1'' ''id-1'' ''host.example.com''
     = ([Print Stdout ''Attempting to delete record host.example.com (ID: id-1)...'',
         Call (DeleteRecord ''id-1'' ''zone-1''),
         Print Stderr
           ''Warning: Delete operation completed but response format was unexpected for host.example.com. Please verify.''],
        Return False)
   \<and> exit_status
        (handle_remove
          (scripted_client
             (Ok [a_record ''id-1'' ''host.example.com'' ''1.2.3.4'' (Some False)])
             (APIError ''quota'') (APIError ''quota'') (Ok None))
          ''zone-1'' ''host.example.com'') = 0
   \<and> delete_dns_record
        (scripted_client (APIError ''quota'') (APIError ''quota'') (APIError ''quota'')
           (APIError ''quota''))
        ''zone-1'' ''id-1'' ''host.example.com''
     = ([Print Stdout ''Attempting to delete record host.example.com (ID: id-1)...'',
         Call (DeleteRecord ''id-1'' ''zone-1''),
         Print Stderr ''Error deleting DNS record: quota''],
        Exit 1)
   \<and> snd (create_dns_record
        (scripted_client (APIError ''quota'') (APIError ''quota'') (APIError ''quota'')
           (APIError ''quota''))
        ''zone-1'' ''A'' ''host.example.com'' ''1.2.3.4'' False) = Exit 1
   \<and> snd (update_dns_record
        (scripted_client (APIError ''quota'') (APIError ''quota'') (APIError ''quota'')
           (APIError ''quota''))
        ''zone-1'' ''id-1'' ''A'' ''host.example.com'' ''1.2.3.4'' False) = Exit 1
   \<and> get_all_dns_records
        (scripted_client (APIError ''quota'') (APIError ''quota'') (APIError ''quota'')
           (APIError ''quota''))
        ''zone-1''
     = ([Call (ListRecords ''zone-1''), Print Stderr ''Error fetching DNS records: quota''],
        Exit 1)"
  using delete_mismatch_is_soft_other_errors_fatal
    [where cf = "scripted_client (Ok []) (APIError ''quota'') (APIError ''quota'')
         (Ok (Some \<lparr>deleted_id = ''id-9''\<rparr>))"
       and dns_record_id = "''id-1''" and zone_id = "''zone-1''"
       and record_name = "''host.example.com''"
       and delete_result = "Some \<lparr>deleted_id = ''id-9''\<rparr>"]
    delete_mismatch_is_soft_other_errors_fatal
    [where cf = "scripted_client
             (Ok [a_record ''id-1'' ''host.example.com'' ''1.2.3.4'' (Some False)])
             (APIError ''quota'') (APIError ''quota'') (Ok None)"
       and zone_id = "''zone-1''" and record_name = "''host.example.com''"
       and records = "[a_record ''id-1'' ''host.example.com'' ''1.2.3.4'' (Some False)]"
       and r = "a_record ''id-1'' ''host.example.com'' ''1.2.3.4'' (Some False)"
       and delete_result = None]
    delete_mismatch_is_soft_other_errors_fatal
    [where cf = "scripted_client (APIError ''quota'') (APIError ''quota'') (APIError ''quota'')
           (APIError ''quota'')"
       and dns_record_id = "''id-1''" and zone_id = "''zone-1''"
       and record_name = "''host.example.com''" and e = "''quota''"
       and record_type = "''A''" and name = "''host.example.com''" and content = "''1.2.3.4''"
       and proxied = False]
  by (simp add: example_defs)

section \<open>Streams\<close>

text \<open>
  C9.  The claim sends every diagnostic to the error stream, the hint after a failed
  create included.  Here the zone holds a CNAME record for the requested host, the
  matcher (which looks for type A) finds nothing, and the provider rejects the create
  with a message containing \<^verbatim>\<open>already exists\<close>.  The error line goes to the error
  stream; the hint that follows it is printed to standard output.
\<close>

theorem create_conflict_hint_on_stdout:
  "handle_add_or_update
     (scripted_client
        (Ok [cname_record ''id-7'' ''host.example.com'' ''origin.example.net''])
        (APIError ''An A, AAAA, or CNAME record with that host already exists.'')
        (OtherException ''unused'') (OtherException ''unused''))
     ''zone-1'' ''host.example.com'' ''1.2.3.4'' False
   = ([Print Stdout ''Fetching existing records for zone zone-1...'',
       Call (ListRecords ''zone-1''),
       Print Stdout (''Searching for existing A record named '' @ apostrophe
          @ ''host.example.com'' @ apostrophe @ ''...''),
       Print Stdout (''No existing A record found for '' @ apostrophe
          @ ''host.example.com'' @ apostrophe @ ''. Creating new record...''),
       Print Stdout
         ''Attempting to create A record for host.example.com -> 1.2.3.4 (Proxied: False)...'',
       Call (CreateRecord ''zone-1'' ''A'' ''host.example.com'' ''1.2.3.4'' False),
       Print Stderr
         ''Error creating DNS record: An A, AAAA, or CNAME record with that host already exists.'',
       Print Stdout ''Hint: A record with this name and type might already exist.''],
      Exit 1)"
  by (simp add: handle_add_or_update_def Let_def get_all_dns_records_def create_dns_record_def
      proc_simps scripted_client_def cname_record_def str_bool_def apostrophe_def)

end
